theory Spec2Isabelle
  imports Main "HOL-Library.Word"
begin

section \<open>Data model\<close>

text \<open>
  The push handlers of \<^verbatim>\<open>talk-channel-handler.ts\<close> and the registry of
  \<^verbatim>\<open>talk-channel-list.ts\<close> are sequences of calls on injected collaborators
  (emitter, parent event context, store, updater, session).  Each handler is embedded
  as a function from the world before the push to the world after it.  The world holds
  the collaborators' state and a chronological trace of the calls the handler made on
  them, so that the order of commits and emissions can be stated.
\<close>

text \<open>\<^verbatim>\<open>Long\<close> of bson: a 64-bit integer.  \<^verbatim>\<open>equals\<close> and its alias \<^verbatim>\<open>eq\<close> compare the
  64 bits; every id here is a signed \<^verbatim>\<open>Long\<close>.\<close>

type_synonym Long = "64 word"

text \<open>References: an \<^verbatim>\<open>EventContext\<close> object, and a meta map object on the heap.\<close>

type_synonym ctx_ref = nat
type_synonym obj_ref = nat

record Channel =
  channelId :: Long

record ChannelUser =
  userId :: Long

text \<open>The fields of \<^verbatim>\<open>ChatlogStruct\<close> and \<^verbatim>\<open>Chatlog\<close> that the handlers read or
  that identify a record.\<close>

record ChatlogStruct =
  struct_logId :: Long
  struct_chatId :: Long
  struct_type :: int
  struct_authorId :: Long
  struct_message :: string

record Chatlog =
  log_logId :: Long
  log_type :: int
  log_sender :: ChannelUser
  log_text :: string

record ChatFeed =
  feedType :: int
  feed_content :: string

record SetChannelMeta =
  meta_type :: int
  meta_revision :: int
  meta_authorId :: Long
  meta_content :: string

record ChannelUserInfo =
  info_userId :: Long
  nickname :: string

text \<open>\<^verbatim>\<open>ChannelMetaMap\<close>: an object keyed by meta type.\<close>

type_synonym ChannelMetaMap = "int \<rightharpoonup> SetChannelMeta"

text \<open>The fields of \<^verbatim>\<open>ChannelInfo\<close> the handlers commit.  \<open>metaMap\<close> is a reference:
  the claims about it speak of object identity.\<close>

record ChannelInfo =
  lastChatLogId :: Long
  lastChatLog :: "Chatlog option"
  metaMap :: obj_ref

text \<open>\<^verbatim>\<open>Partial<ChannelInfo>\<close>, the argument of \<^verbatim>\<open>updateInfo\<close>: \<open>None\<close> is a key
  that the object literal does not have.\<close>

record PartialInfo =
  p_lastChatLogId :: "Long option"
  p_lastChatLog :: "Chatlog option"
  p_metaMap :: "obj_ref option"

text \<open>\<^verbatim>\<open>DefaultRes\<close>, the payload of a push.  The handlers cast it to the response type
  of their tag and read only the fields of that type; the record has every field that
  some handler reads (\<^verbatim>\<open>data['c']\<close> is \<open>res_c\<close>).\<close>

record DefaultRes =
  res_status :: int
  res_chatId :: Long
  res_logId :: Long
  res_chatLog :: ChatlogStruct
  res_c :: Long
  res_userId :: Long
  res_watermark :: Long
  res_meta :: SetChannelMeta

text \<open>\<^verbatim>\<open>CommandResult<T>\<close>: a status, and the result when \<^verbatim>\<open>success\<close> is true.\<close>

datatype 'a CommandResult = Failure int | Success int 'a

text \<open>What \<^verbatim>\<open>ChannelDataStore\<close> holds: \<^verbatim>\<open>info\<close>, the user records read by
  \<^verbatim>\<open>getUserInfo\<close>, and the read watermarks.\<close>

record ChannelStore =
  info :: ChannelInfo
  userInfoMap :: "Long \<rightharpoonup> ChannelUserInfo"
  watermarkMap :: "Long \<rightharpoonup> Long"

datatype TalkChatData = TalkChatData Chatlog

text \<open>\<^verbatim>\<open>ChannelEvents\<close>: one constructor per event name, with its argument tuple.\<close>

datatype ChannelEvent =
    Ev_chat TalkChatData Channel
  | Ev_chat_read Long Channel "ChannelUserInfo option"
  | Ev_meta_change Channel int SetChannelMeta
  | Ev_user_left Chatlog Channel ChannelUserInfo ChatFeed
  | Ev_user_join Chatlog Channel ChannelUserInfo ChatFeed
  | Ev_chat_deleted Chatlog Channel ChatFeed

text \<open>The two sinks of \<^verbatim>\<open>_callEvent\<close>: \<^verbatim>\<open>this._emitter\<close> and the parent context.\<close>

datatype sink = LocalEmitter | ParentCtx ctx_ref

text \<open>One entry of the trace per call on a collaborator.  An emission records the
  store as it is when the listeners run: what an observer of the event reads from
  \<^verbatim>\<open>info\<close>, \<^verbatim>\<open>getUserInfo\<close> and the watermarks at that moment.\<close>

datatype effect =
    Emit sink ChannelEvent ChannelStore
  | UpdateInfo PartialInfo
  | UpdateWatermark Long Long
  | RemoveUser ChannelUser
  | UpdateUserInfo ChannelUser ChannelUserInfo
  | GetLatestUserInfo ChannelUser

text \<open>The world of one \<^verbatim>\<open>TalkChannelHandler\<close>.  \<open>heap\<close> holds the meta map objects,
  a reference being an index; \<open>pending\<close> holds the continuations registered with
  \<^verbatim>\<open>then\<close> on promises that have not settled (the captured \<^verbatim>\<open>chatLog\<close> and
  \<^verbatim>\<open>parentCtx\<close>).\<close>

record World =
  heap :: "ChannelMetaMap list"
  store :: ChannelStore
  pending :: "(Chatlog \<times> ctx_ref) list"
  trace :: "effect list"

text \<open>The imported functions and enum members that are declared outside these two
  files: they are parameters of the handlers.\<close>

record Imports =
  structToChatlog :: "ChatlogStruct \<Rightarrow> Chatlog"
  feedFromChat :: "Chatlog \<Rightarrow> ChatFeed"
  KnownChatType_FEED :: int
  KnownFeedType_DELETE_TO_ALL :: int

section \<open>Collaborators of the channel handler\<close>

text \<open>Modelled from the spec: \<^verbatim>\<open>TypedEmitter\<close> and \<^verbatim>\<open>EventContext\<close> are declared outside
  these two files.  \<open>emit(eventName, ...args)\<close> fires the sink synchronously: the listeners
  run now, on the current store.\<close>

definition emit :: "sink \<Rightarrow> ChannelEvent \<Rightarrow> World \<Rightarrow> World" where
  "emit s ev w = w\<lparr>trace := trace w @ [Emit s ev (store w)]\<rparr>"

text \<open>Modelled from the spec: \<^verbatim>\<open>ChannelDataStore\<close> is declared outside these two files.
  \<open>lookupUser(ref) -> UserInfo|absent\<close>, called as \<^verbatim>\<open>this._store.getUserInfo(user)\<close>.\<close>

definition getUserInfo :: "World \<Rightarrow> ChannelUser \<Rightarrow> ChannelUserInfo option" where
  "getUserInfo w user = userInfoMap (store w) (userId user)"

text \<open>Modelled from the spec: the implementation of \<^verbatim>\<open>ChannelDataUpdater\<close> is declared outside
  these two files.  \<open>commitInfo(partialInfo)\<close> overwrites the fields the partial record
  has and keeps the others.\<close>

definition mergeInfo :: "PartialInfo \<Rightarrow> ChannelInfo \<Rightarrow> ChannelInfo" where
  "mergeInfo p i =
     \<lparr>lastChatLogId = (case p_lastChatLogId p of None \<Rightarrow> lastChatLogId i | Some l \<Rightarrow> l),
      lastChatLog = (case p_lastChatLog p of None \<Rightarrow> lastChatLog i | Some c \<Rightarrow> Some c),
      metaMap = (case p_metaMap p of None \<Rightarrow> metaMap i | Some r \<Rightarrow> r)\<rparr>"

definition updateInfo :: "PartialInfo \<Rightarrow> World \<Rightarrow> World" where
  "updateInfo p w =
     w\<lparr>store := (store w)\<lparr>info := mergeInfo p (info (store w))\<rparr>,
       trace := trace w @ [UpdateInfo p]\<rparr>"

text \<open>Modelled from the spec: \<open>commitWatermark(userId, logId)\<close> of the absent updater.
  Watermark tracking is keyed purely by identifier, independent of whether a profile
  record exists.\<close>

definition updateWatermark :: "Long \<Rightarrow> Long \<Rightarrow> World \<Rightarrow> World" where
  "updateWatermark readerId wm w =
     w\<lparr>store := (store w)\<lparr>watermarkMap := (watermarkMap (store w))(readerId \<mapsto> wm)\<rparr>,
       trace := trace w @ [UpdateWatermark readerId wm]\<rparr>"

text \<open>Modelled from the spec: \<open>removeUser(ref)\<close> of the absent updater removes the user
  from the local cache.\<close>

definition removeUser :: "ChannelUser \<Rightarrow> World \<Rightarrow> World" where
  "removeUser user w =
     w\<lparr>store := (store w)\<lparr>userInfoMap := (userInfoMap (store w))(userId user := None)\<rparr>,
       trace := trace w @ [RemoveUser user]\<rparr>"

text \<open>Modelled from the spec: \<open>commitUser(ref, info)\<close> of the absent updater commits the
  record to the local cache.\<close>

definition updateUserInfo :: "ChannelUser \<Rightarrow> ChannelUserInfo \<Rightarrow> World \<Rightarrow> World" where
  "updateUserInfo user uinfo w =
     w\<lparr>store := (store w)\<lparr>userInfoMap := (userInfoMap (store w))(userId user \<mapsto> uinfo)\<rparr>,
       trace := trace w @ [UpdateUserInfo user uinfo]\<rparr>"

text \<open>Modelled from the spec: \<^verbatim>\<open>ChannelSession\<close> is declared outside these two files.
  \<open>fetchLatestUsers(ref) -> async Result<list of UserInfo>\<close>, called as
  \<^verbatim>\<open>this._session.getLatestUserInfo(user).then(cb)\<close>: the request goes out and the
  continuation waits for the promise to settle.\<close>

definition getLatestUserInfo_then :: "ChannelUser \<Rightarrow> Chatlog \<times> ctx_ref \<Rightarrow> World \<Rightarrow> World" where
  "getLatestUserInfo_then user k w =
     w\<lparr>pending := pending w @ [k], trace := trace w @ [GetLatestUserInfo user]\<rparr>"

subsection \<open>Objects\<close>

text \<open>Reading an object through a reference.  The references the store holds denote
  objects that exist; the spread of a value that is no object has no own keys.\<close>

definition deref :: "ChannelMetaMap list \<Rightarrow> obj_ref \<Rightarrow> ChannelMetaMap" where
  "deref h r = (if r < length h then h ! r else Map.empty)"

text \<open>The object literal \<^verbatim>\<open>{ ...obj }\<close>: a new object with the own keys of \<open>obj\<close>.\<close>

definition spread :: "obj_ref \<Rightarrow> World \<Rightarrow> obj_ref \<times> World" where
  "spread r w = (length (heap w), w\<lparr>heap := heap w @ [deref (heap w) r]\<rparr>)"

text \<open>The assignment \<^verbatim>\<open>obj[key] = value\<close>.\<close>

definition obj_set :: "obj_ref \<Rightarrow> int \<Rightarrow> SetChannelMeta \<Rightarrow> World \<Rightarrow> World" where
  "obj_set r k v w =
     (if r < length (heap w) then w\<lparr>heap := (heap w)[r := (heap w ! r)(k \<mapsto> v)]\<rparr> else w)"

section \<open>TalkChannelHandler\<close>

definition callEvent :: "ctx_ref \<Rightarrow> ChannelEvent \<Rightarrow> World \<Rightarrow> World" where
  "callEvent parentCtx ev w = emit (ParentCtx parentCtx) ev (emit LocalEmitter ev w)"

definition msgHandler :: "Imports \<Rightarrow> Channel \<Rightarrow> DefaultRes \<Rightarrow> ctx_ref \<Rightarrow> World \<Rightarrow> World" where
  "msgHandler imp channel msgData parentCtx w =
     (if channelId channel \<noteq> res_chatId msgData then w
      else
        let chatLog = structToChatlog imp (res_chatLog msgData);
            w1 = callEvent parentCtx (Ev_chat (TalkChatData chatLog) channel) w
        in updateInfo \<lparr>p_lastChatLogId = Some (res_logId msgData),
                       p_lastChatLog = Some chatLog,
                       p_metaMap = None\<rparr> w1)"

definition feedHandler :: "Imports \<Rightarrow> Channel \<Rightarrow> DefaultRes \<Rightarrow> ctx_ref \<Rightarrow> World \<Rightarrow> World" where
  "feedHandler imp channel data parentCtx w =
     (let cid = res_c data in
      if channelId channel \<noteq> cid then w
      else
        let chatLog = structToChatlog imp (res_chatLog data);
            w1 = callEvent parentCtx (Ev_chat (TalkChatData chatLog) channel) w
        in updateInfo \<lparr>p_lastChatLogId = Some (log_logId chatLog),
                       p_lastChatLog = Some chatLog,
                       p_metaMap = None\<rparr> w1)"

definition chatReadHandler :: "Channel \<Rightarrow> DefaultRes \<Rightarrow> ctx_ref \<Rightarrow> World \<Rightarrow> World" where
  "chatReadHandler channel readData parentCtx w =
     (if channelId channel \<noteq> res_chatId readData then w
      else
        let reader = getUserInfo w \<lparr>userId = res_userId readData\<rparr>;
            w1 = updateWatermark (res_userId readData) (res_watermark readData) w
        in callEvent parentCtx (Ev_chat_read (res_watermark readData) channel reader) w1)"

definition metaChangeHandler :: "Channel \<Rightarrow> DefaultRes \<Rightarrow> ctx_ref \<Rightarrow> World \<Rightarrow> World" where
  "metaChangeHandler channel metaData parentCtx w =
     (if channelId channel \<noteq> res_chatId metaData then w
      else
        let metaType = meta_type (res_meta metaData);
            meta = res_meta metaData;
            w1 = callEvent parentCtx (Ev_meta_change channel metaType meta) w;
            (newMap, w2) = spread (metaMap (info (store w1))) w1;
            w3 = obj_set newMap metaType meta w2
        in updateInfo \<lparr>p_lastChatLogId = None, p_lastChatLog = None,
                       p_metaMap = Some newMap\<rparr> w3)"

definition userLeftHandler :: "Imports \<Rightarrow> Channel \<Rightarrow> DefaultRes \<Rightarrow> ctx_ref \<Rightarrow> World \<Rightarrow> World" where
  "userLeftHandler imp channel data parentCtx w =
     (let struct = res_chatLog data in
      if channelId channel \<noteq> struct_chatId struct then w
      else
        let chatLog = structToChatlog imp struct in
        case getUserInfo w (log_sender chatLog) of
          None \<Rightarrow> w
        | Some user \<Rightarrow>
            let w1 = removeUser (log_sender chatLog) w in
            if log_type chatLog \<noteq> KnownChatType_FEED imp then w1
            else
              let feed = feedFromChat imp chatLog
              in callEvent parentCtx (Ev_user_left chatLog channel user feed) w1)"

text \<open>The body of the \<^verbatim>\<open>for\<close> loop of the continuation, and the loop.\<close>

fun userJoinLoop ::
  "Imports \<Rightarrow> Channel \<Rightarrow> Chatlog \<Rightarrow> ctx_ref \<Rightarrow> ChannelUserInfo list \<Rightarrow> World \<Rightarrow> World" where
  "userJoinLoop imp channel chatLog parentCtx [] w = w"
| "userJoinLoop imp channel chatLog parentCtx (user # rest) w =
     (let w1 = updateUserInfo \<lparr>userId = info_userId user\<rparr> user w;
          feed = feedFromChat imp chatLog;
          w2 = callEvent parentCtx (Ev_user_join chatLog channel user feed) w1
      in userJoinLoop imp channel chatLog parentCtx rest w2)"

text \<open>The continuation \<^verbatim>\<open>(usersRes) => { ... }\<close>, run when the promise settles.\<close>

definition userJoinCallback ::
  "Imports \<Rightarrow> Channel \<Rightarrow> Chatlog \<Rightarrow> ctx_ref \<Rightarrow> ChannelUserInfo list CommandResult
     \<Rightarrow> World \<Rightarrow> World" where
  "userJoinCallback imp channel chatLog parentCtx usersRes w =
     (case usersRes of
        Failure st \<Rightarrow> w
      | Success st users \<Rightarrow> userJoinLoop imp channel chatLog parentCtx users w)"

definition userJoinHandler :: "Imports \<Rightarrow> Channel \<Rightarrow> DefaultRes \<Rightarrow> ctx_ref \<Rightarrow> World \<Rightarrow> World" where
  "userJoinHandler imp channel data parentCtx w =
     (let struct = res_chatLog data in
      if channelId channel \<noteq> struct_chatId struct then w
      else
        let chatLog = structToChatlog imp struct in
        if log_type chatLog \<noteq> KnownChatType_FEED imp then w
        else getLatestUserInfo_then (log_sender chatLog) (chatLog, parentCtx) w)"

text \<open>The promise of the \<open>i\<close>-th waiting continuation settles with \<open>usersRes\<close>: the
  continuation leaves the queue and runs.\<close>

definition settle ::
  "Imports \<Rightarrow> Channel \<Rightarrow> nat \<Rightarrow> ChannelUserInfo list CommandResult \<Rightarrow> World \<Rightarrow> World" where
  "settle imp channel i usersRes w =
     (if i < length (pending w) then
        (case pending w ! i of
           (chatLog, parentCtx) \<Rightarrow>
             userJoinCallback imp channel chatLog parentCtx usersRes
               (w\<lparr>pending := take i (pending w) @ drop (Suc i) (pending w)\<rparr>))
      else w)"

definition msgDeleteHandler :: "Imports \<Rightarrow> Channel \<Rightarrow> DefaultRes \<Rightarrow> ctx_ref \<Rightarrow> World \<Rightarrow> World" where
  "msgDeleteHandler imp channel data parentCtx w =
     (let struct = res_chatLog data in
      if channelId channel \<noteq> struct_chatId struct then w
      else
        let chatLog = structToChatlog imp struct in
        if log_type chatLog \<noteq> KnownChatType_FEED imp then w
        else
          let feed = feedFromChat imp chatLog in
          if feedType feed \<noteq> KnownFeedType_DELETE_TO_ALL imp then w
          else callEvent parentCtx (Ev_chat_deleted chatLog channel feed) w)"

text \<open>\<^verbatim>\<open>TalkChannelHandler.pushReceived\<close>: the \<^verbatim>\<open>switch\<close> on the tag; a tag with no
  \<^verbatim>\<open>case\<close> does nothing.\<close>

definition TalkChannelHandler_pushReceived ::
  "Imports \<Rightarrow> Channel \<Rightarrow> string \<Rightarrow> DefaultRes \<Rightarrow> ctx_ref \<Rightarrow> World \<Rightarrow> World" where
  "TalkChannelHandler_pushReceived imp channel method data parentCtx w =
     (if method = ''MSG'' then msgHandler imp channel data parentCtx w
      else if method = ''FEED'' then feedHandler imp channel data parentCtx w
      else if method = ''DECUNREAD'' then chatReadHandler channel data parentCtx w
      else if method = ''CHGMETA'' then metaChangeHandler channel data parentCtx w
      else if method = ''DELMEM'' then userLeftHandler imp channel data parentCtx w
      else if method = ''NEWMEM'' then userJoinHandler imp channel data parentCtx w
      else if method = ''SYNCDLMSG'' then msgDeleteHandler imp channel data parentCtx w
      else w)"

text \<open>The events a trace emitted on a sink, oldest first.\<close>

fun emitted :: "sink \<Rightarrow> effect list \<Rightarrow> ChannelEvent list" where
  "emitted s [] = []"
| "emitted s (Emit s' ev st # es) = (if s' = s then ev # emitted s es else emitted s es)"
| "emitted s (e # es) = emitted s es"

section \<open>TalkChannelListHandler\<close>

datatype ChannelListEvent = Ev_channel_left Channel | Ev_channel_join Channel

text \<open>The calls of the list handler on its collaborators.  \<open>RemoveChannel\<close> records the
  boolean the updater returned; an emission records the list store as it is when the
  listeners run.\<close>

datatype list_effect =
    ListEmit sink ChannelListEvent "Long \<rightharpoonup> Channel"
  | RemoveChannel Channel bool
  | AddChannel Channel

text \<open>The world of one \<^verbatim>\<open>TalkChannelListHandler\<close>: what \<^verbatim>\<open>ChannelListStore.get\<close>
  reads, the continuations waiting on \<^verbatim>\<open>addChannel\<close> promises (the captured
  \<^verbatim>\<open>parentCtx\<close>), and the trace.\<close>

record ListWorld =
  channelMap :: "Long \<rightharpoonup> Channel"
  list_pending :: "ctx_ref list"
  list_trace :: "list_effect list"

text \<open>\<^verbatim>\<open>ChannelListUpdater.removeChannel(channel): boolean\<close> is declared in the source as
  an interface method only.  Its implementation is a parameter: from the channel and
  the list store to the boolean it returns and the list store it leaves.\<close>

type_synonym removeChannel_impl =
  "Channel \<Rightarrow> (Long \<rightharpoonup> Channel) \<Rightarrow> bool \<times> (Long \<rightharpoonup> Channel)"

definition list_emit :: "sink \<Rightarrow> ChannelListEvent \<Rightarrow> ListWorld \<Rightarrow> ListWorld" where
  "list_emit s ev w = w\<lparr>list_trace := list_trace w @ [ListEmit s ev (channelMap w)]\<rparr>"

definition list_callEvent :: "ctx_ref \<Rightarrow> ChannelListEvent \<Rightarrow> ListWorld \<Rightarrow> ListWorld" where
  "list_callEvent parentCtx ev w =
     list_emit (ParentCtx parentCtx) ev (list_emit LocalEmitter ev w)"

text \<open>The statement \<^verbatim>\<open>this._updater.removeChannel(channel);\<close>: the call is made and its
  result is dropped.\<close>

definition call_removeChannel :: "removeChannel_impl \<Rightarrow> Channel \<Rightarrow> ListWorld \<Rightarrow> ListWorld" where
  "call_removeChannel removeChannel channel w =
     (case removeChannel channel (channelMap w) of
        (res, m) \<Rightarrow> w\<lparr>channelMap := m, list_trace := list_trace w @ [RemoveChannel channel res]\<rparr>)"

text \<open>\<^verbatim>\<open>this._updater.addChannel(channel).then(cb)\<close>.\<close>

definition addChannel_then :: "Channel \<Rightarrow> ctx_ref \<Rightarrow> ListWorld \<Rightarrow> ListWorld" where
  "addChannel_then channel k w =
     w\<lparr>list_pending := list_pending w @ [k], list_trace := list_trace w @ [AddChannel channel]\<rparr>"

text \<open>The continuation \<^verbatim>\<open>(res) => { ... }\<close> of the \<^verbatim>\<open>SYNCJOIN\<close> case.\<close>

definition channelJoinCallback ::
  "ctx_ref \<Rightarrow> Channel CommandResult \<Rightarrow> ListWorld \<Rightarrow> ListWorld" where
  "channelJoinCallback parentCtx res w =
     (case res of
        Failure st \<Rightarrow> w
      | Success st channel \<Rightarrow> list_callEvent parentCtx (Ev_channel_join channel) w)"

definition TalkChannelListHandler_pushReceived ::
  "removeChannel_impl \<Rightarrow> string \<Rightarrow> DefaultRes \<Rightarrow> ctx_ref \<Rightarrow> ListWorld \<Rightarrow> ListWorld" where
  "TalkChannelListHandler_pushReceived removeChannel method data parentCtx w =
     (if method = ''LEFT'' then
        (let leftData = data in
         case channelMap w (res_chatId leftData) of
           None \<Rightarrow> w
         | Some channel \<Rightarrow>
             let w1 = call_removeChannel removeChannel channel w
             in list_callEvent parentCtx (Ev_channel_left channel) w1)
      else if method = ''SYNCJOIN'' then
        (let joinData = data
         in addChannel_then \<lparr>channelId = res_c joinData\<rparr> parentCtx w)
      else w)"

fun list_emitted :: "sink \<Rightarrow> list_effect list \<Rightarrow> ChannelListEvent list" where
  "list_emitted s [] = []"
| "list_emitted s (ListEmit s' ev m # es) =
     (if s' = s then ev # list_emitted s es else list_emitted s es)"
| "list_emitted s (e # es) = list_emitted s es"

section \<open>TalkChannelList\<close>

text \<open>An \<^verbatim>\<open>EventContext\<close> object: the emitter it wraps and its parent context.\<close>

type_synonym emitter_ref = nat

record EventContext =
  ctx_emitter :: emitter_ref
  ctx_parent :: ctx_ref

datatype sublist = NormalList | OpenList

text \<open>A call of \<^verbatim>\<open>pushReceived\<close> on a sub-registry, with its three arguments.\<close>

datatype forward = Forward sublist string DefaultRes ctx_ref

text \<open>The state of a \<^verbatim>\<open>TalkChannelList\<close>: its two sub-registries, the \<^verbatim>\<open>EventContext\<close>
  objects constructed so far (a reference being an index), and the calls made on the
  sub-registries.  \<^verbatim>\<open>TalkNormalChannelList\<close> and \<^verbatim>\<open>TalkOpenChannelList\<close> are declared
  outside these two files: their states are type parameters and their \<^verbatim>\<open>pushReceived\<close>
  methods are parameters of the registry's.\<close>

record ('n, 'o) TalkChannelList =
  normalList :: 'n
  openList :: 'o
  contexts :: "EventContext list"
  forwards :: "forward list"

definition new_EventContext ::
  "emitter_ref \<Rightarrow> ctx_ref \<Rightarrow> ('n, 'o) TalkChannelList \<Rightarrow> ctx_ref \<times> ('n, 'o) TalkChannelList" where
  "new_EventContext em parent l =
     (length (contexts l),
      l\<lparr>contexts := contexts l @ [\<lparr>ctx_emitter = em, ctx_parent = parent\<rparr>]\<rparr>)"

definition normalList_pushReceived ::
  "(string \<Rightarrow> DefaultRes \<Rightarrow> ctx_ref \<Rightarrow> 'n \<Rightarrow> 'n) \<Rightarrow> string \<Rightarrow> DefaultRes \<Rightarrow> ctx_ref
     \<Rightarrow> ('n, 'o) TalkChannelList \<Rightarrow> ('n, 'o) TalkChannelList" where
  "normalList_pushReceived npush method data ctx l =
     l\<lparr>normalList := npush method data ctx (normalList l),
       forwards := forwards l @ [Forward NormalList method data ctx]\<rparr>"

definition openList_pushReceived ::
  "(string \<Rightarrow> DefaultRes \<Rightarrow> ctx_ref \<Rightarrow> 'o \<Rightarrow> 'o) \<Rightarrow> string \<Rightarrow> DefaultRes \<Rightarrow> ctx_ref
     \<Rightarrow> ('n, 'o) TalkChannelList \<Rightarrow> ('n, 'o) TalkChannelList" where
  "openList_pushReceived opush method data ctx l =
     l\<lparr>openList := opush method data ctx (openList l),
       forwards := forwards l @ [Forward OpenList method data ctx]\<rparr>"

text \<open>\<^verbatim>\<open>TalkChannelList.pushReceived\<close>; \<open>this\<close> is the list itself, the emitter the new
  context wraps.\<close>

definition TalkChannelList_pushReceived ::
  "(string \<Rightarrow> DefaultRes \<Rightarrow> ctx_ref \<Rightarrow> 'n \<Rightarrow> 'n) \<Rightarrow> (string \<Rightarrow> DefaultRes \<Rightarrow> ctx_ref \<Rightarrow> 'o \<Rightarrow> 'o)
     \<Rightarrow> emitter_ref \<Rightarrow> string \<Rightarrow> DefaultRes \<Rightarrow> ctx_ref
     \<Rightarrow> ('n, 'o) TalkChannelList \<Rightarrow> ('n, 'o) TalkChannelList" where
  "TalkChannelList_pushReceived npush opush this method data parentCtx l =
     (let (ctx, l1) = new_EventContext this parentCtx l;
          l2 = normalList_pushReceived npush method data ctx l1
      in openList_pushReceived opush method data ctx l2)"

section \<open>Concrete inputs\<close>

text \<open>A channel, decoders and pushes on which the theorems below are evaluated.  The
  decoder copies the fields of the struct; the feed decoder takes the feed type from the
  text of the record.\<close>

definition ex_channel :: Channel where
  "ex_channel = \<lparr>channelId = 7\<rparr>"

definition ex_imports :: Imports where
  "ex_imports =
     \<lparr>structToChatlog = (\<lambda>s. \<lparr>log_logId = struct_logId s, log_type = struct_type s,
                               log_sender = \<lparr>userId = struct_authorId s\<rparr>,
                               log_text = struct_message s\<rparr>),
      feedFromChat = (\<lambda>c. \<lparr>feedType = (if log_text c = ''del'' then 14 else 2),
                            feed_content = log_text c\<rparr>),
      KnownChatType_FEED = 0,
      KnownFeedType_DELETE_TO_ALL = 14\<rparr>"

definition ex_meta :: SetChannelMeta where
  "ex_meta = \<lparr>meta_type = 3, meta_revision = 2, meta_authorId = 5, meta_content = ''title''\<rparr>"

definition ex_old_meta :: SetChannelMeta where
  "ex_old_meta = \<lparr>meta_type = 1, meta_revision = 1, meta_authorId = 5, meta_content = ''notice''\<rparr>"

definition ex_struct :: "int \<Rightarrow> string \<Rightarrow> ChatlogStruct" where
  "ex_struct ty msg =
     \<lparr>struct_logId = 41, struct_chatId = 7, struct_type = ty, struct_authorId = 5,
      struct_message = msg\<rparr>"

text \<open>A push addressed to \<open>ex_channel\<close>, with the given embedded log and user id.\<close>

definition ex_data :: "ChatlogStruct \<Rightarrow> Long \<Rightarrow> DefaultRes" where
  "ex_data struct uid =
     \<lparr>res_status = 0, res_chatId = 7, res_logId = 41, res_chatLog = struct, res_c = 7,
      res_userId = uid, res_watermark = 40, res_meta = ex_meta\<rparr>"

definition ex_user :: ChannelUserInfo where
  "ex_user = \<lparr>info_userId = 5, nickname = ''ann''\<rparr>"

definition ex_user2 :: ChannelUserInfo where
  "ex_user2 = \<lparr>info_userId = 6, nickname = ''bob''\<rparr>"

text \<open>A world whose last log id is ahead of the pushes above, with one meta map object
  and one known user.\<close>

definition ex_world :: World where
  "ex_world =
     \<lparr>heap = [[1 \<mapsto> ex_old_meta]],
      store = \<lparr>info = \<lparr>lastChatLogId = 100, lastChatLog = None, metaMap = 0\<rparr>,
               userInfoMap = [5 \<mapsto> ex_user],
               watermarkMap = Map.empty\<rparr>,
      pending = [],
      trace = []\<rparr>"

text \<open>A list store holding \<open>ex_channel\<close>, an updater that deletes the channel from it
  and reports whether it was there, and an updater that deletes nothing and reports
  \<open>False\<close>.\<close>

definition ex_list_world :: ListWorld where
  "ex_list_world = \<lparr>channelMap = [7 \<mapsto> ex_channel], list_pending = [], list_trace = []\<rparr>"

definition ex_removeChannel :: removeChannel_impl where
  "ex_removeChannel channel m = (m (channelId channel) \<noteq> None, m(channelId channel := None))"

definition ex_removeChannel_refusing :: removeChannel_impl where
  "ex_removeChannel_refusing channel m = (False, m)"

section \<open>Properties of the collaborators\<close>

lemma emit_proj:
  "heap (emit s ev w) = heap w"
  "store (emit s ev w) = store w"
  "pending (emit s ev w) = pending w"
  "trace (emit s ev w) = trace w @ [Emit s ev (store w)]"
  by (simp_all add: emit_def)

lemma callEvent_proj:
  "heap (callEvent c ev w) = heap w"
  "store (callEvent c ev w) = store w"
  "pending (callEvent c ev w) = pending w"
  "trace (callEvent c ev w) =
     trace w @ [Emit LocalEmitter ev (store w), Emit (ParentCtx c) ev (store w)]"
  by (simp_all add: callEvent_def emit_proj)

lemma emitted_append: "emitted s (xs @ ys) = emitted s xs @ emitted s ys"
  by (induction s xs rule: emitted.induct) simp_all

text \<open>The \<^verbatim>\<open>switch\<close> reaches the handler of each tag.\<close>

lemma dispatch:
  "TalkChannelHandler_pushReceived imp channel ''MSG'' = msgHandler imp channel"
  "TalkChannelHandler_pushReceived imp channel ''FEED'' = feedHandler imp channel"
  "TalkChannelHandler_pushReceived imp channel ''DECUNREAD'' = (\<lambda>d. chatReadHandler channel d)"
  "TalkChannelHandler_pushReceived imp channel ''CHGMETA'' = (\<lambda>d. metaChangeHandler channel d)"
  "TalkChannelHandler_pushReceived imp channel ''DELMEM'' = userLeftHandler imp channel"
  "TalkChannelHandler_pushReceived imp channel ''NEWMEM'' = userJoinHandler imp channel"
  "TalkChannelHandler_pushReceived imp channel ''SYNCDLMSG'' = msgDeleteHandler imp channel"
  by (simp_all add: TalkChannelHandler_pushReceived_def fun_eq_iff)

section \<open>Meta change\<close>

text \<open>The world a matching \<^verbatim>\<open>CHGMETA\<close> push leaves: two emissions on the store as it
  was, one new object on the heap, and the commit of its reference.\<close>

lemma metaChangeHandler_match:
  assumes "channelId channel = res_chatId metaData"
  shows "metaChangeHandler channel metaData parentCtx w =
     w\<lparr>heap := heap w @ [(deref (heap w) (metaMap (info (store w))))
                            (meta_type (res_meta metaData) \<mapsto> res_meta metaData)],
       store := (store w)\<lparr>info := (info (store w))\<lparr>metaMap := length (heap w)\<rparr>\<rparr>,
       trace := trace w @
         [Emit LocalEmitter
            (Ev_meta_change channel (meta_type (res_meta metaData)) (res_meta metaData)) (store w),
          Emit (ParentCtx parentCtx)
            (Ev_meta_change channel (meta_type (res_meta metaData)) (res_meta metaData)) (store w),
          UpdateInfo \<lparr>p_lastChatLogId = None, p_lastChatLog = None,
                      p_metaMap = Some (length (heap w))\<rparr>]\<rparr>"
  using assms
  by (simp add: metaChangeHandler_def Let_def spread_def obj_set_def updateInfo_def
      callEvent_proj mergeInfo_def)

text \<open>
  C1.  A meta-change push whose conversation id matches, for meta type \<open>T\<close>, commits a
  map object that did not exist before the push (its reference differs from the one the
  store held and denotes no object of the previous heap).  The new object maps \<open>T\<close> to
  the pushed meta and agrees with the previously held map on every other key.  Every
  object of the previous heap, the previously held map among them, reads as before, and
  the reference handed to \<^verbatim>\<open>updateInfo\<close> is the new one.
\<close>

theorem metaChange_copy_on_write:
  assumes "channelId channel = res_chatId metaData"
    and "metaMap (info (store w)) < length (heap w)"
  shows "let w' = TalkChannelHandler_pushReceived imp channel ''CHGMETA'' metaData parentCtx w;
             old = metaMap (info (store w));
             new = metaMap (info (store w'));
             T = meta_type (res_meta metaData)
         in new \<noteq> old \<and> \<not> new < length (heap w) \<and> new < length (heap w')
          \<and> deref (heap w') new T = Some (res_meta metaData)
          \<and> (\<forall>k. k \<noteq> T \<longrightarrow> deref (heap w') new k = deref (heap w) old k)
          \<and> (\<forall>r. r < length (heap w) \<longrightarrow> deref (heap w') r = deref (heap w) r)
          \<and> last (trace w') = UpdateInfo \<lparr>p_lastChatLogId = None, p_lastChatLog = None,
                                           p_metaMap = Some new\<rparr>"
  using assms
  by (simp add: dispatch metaChangeHandler_match Let_def deref_def nth_append)

theorem metaChange_copy_on_write_witness:
  "channelId ex_channel = res_chatId (ex_data (ex_struct 1 ''hi'') 5)
   \<and> metaMap (info (store ex_world)) < length (heap ex_world)
   \<and> (let w' = TalkChannelHandler_pushReceived ex_imports ex_channel ''CHGMETA''
                 (ex_data (ex_struct 1 ''hi'') 5) 0 ex_world
      in metaMap (info (store ex_world)) = 0 \<and> metaMap (info (store w')) = 1
       \<and> deref (heap w') 1 3 = Some ex_meta
       \<and> deref (heap w') 1 1 = Some ex_old_meta
       \<and> deref (heap w') 0 3 = None
       \<and> deref (heap w') 0 1 = Some ex_old_meta)"
  using metaChange_copy_on_write
    [of ex_channel "ex_data (ex_struct 1 ''hi'') 5" ex_world ex_imports 0]
  by (simp add: ex_channel_def ex_data_def ex_world_def ex_meta_def Let_def deref_def
      dispatch metaChangeHandler_match nth_append)

text \<open>
  C2.  A meta-change push whose conversation id matches appends to the trace the
  \<^verbatim>\<open>meta_change\<close> emission on the local emitter, the same emission on the parent
  context, and only then the \<^verbatim>\<open>updateInfo\<close> call that commits the new map.  Both
  emissions run on the store as it was before the push: the map reference an observer
  reads there is the previously committed one, it differs from the one being installed,
  and the object it denotes reads as before the push.
\<close>

theorem metaChange_emits_before_commit:
  assumes "channelId channel = res_chatId metaData"
    and "metaMap (info (store w)) < length (heap w)"
  shows "let w' = TalkChannelHandler_pushReceived imp channel ''CHGMETA'' metaData parentCtx w;
             ev = Ev_meta_change channel (meta_type (res_meta metaData)) (res_meta metaData);
             new = metaMap (info (store w'))
         in trace w' = trace w @
              [Emit LocalEmitter ev (store w), Emit (ParentCtx parentCtx) ev (store w),
               UpdateInfo \<lparr>p_lastChatLogId = None, p_lastChatLog = None, p_metaMap = Some new\<rparr>]
          \<and> metaMap (info (store w)) \<noteq> new
          \<and> deref (heap w') (metaMap (info (store w))) = deref (heap w) (metaMap (info (store w)))"
  using assms
  by (simp add: dispatch metaChangeHandler_match Let_def deref_def nth_append)

theorem metaChange_emits_before_commit_witness:
  "channelId ex_channel = res_chatId (ex_data (ex_struct 1 ''hi'') 5)
   \<and> metaMap (info (store ex_world)) < length (heap ex_world)
   \<and> trace (TalkChannelHandler_pushReceived ex_imports ex_channel ''CHGMETA''
              (ex_data (ex_struct 1 ''hi'') 5) 9 ex_world) =
       [Emit LocalEmitter (Ev_meta_change ex_channel 3 ex_meta) (store ex_world),
        Emit (ParentCtx 9) (Ev_meta_change ex_channel 3 ex_meta) (store ex_world),
        UpdateInfo \<lparr>p_lastChatLogId = None, p_lastChatLog = None, p_metaMap = Some 1\<rparr>]
   \<and> metaMap (info (store ex_world)) = 0"
  using metaChange_emits_before_commit
    [of ex_channel "ex_data (ex_struct 1 ''hi'') 5" ex_world ex_imports 9]
  by (simp add: ex_channel_def ex_data_def ex_world_def ex_meta_def Let_def deref_def
      dispatch metaChangeHandler_match nth_append)

section \<open>Message post\<close>

lemma msgHandler_match:
  assumes "channelId channel = res_chatId msgData"
  shows "msgHandler imp channel msgData parentCtx w =
     w\<lparr>store := (store w)\<lparr>info := (info (store w))
            \<lparr>lastChatLogId := res_logId msgData,
             lastChatLog := Some (structToChatlog imp (res_chatLog msgData))\<rparr>\<rparr>,
       trace := trace w @
         [Emit LocalEmitter
            (Ev_chat (TalkChatData (structToChatlog imp (res_chatLog msgData))) channel) (store w),
          Emit (ParentCtx parentCtx)
            (Ev_chat (TalkChatData (structToChatlog imp (res_chatLog msgData))) channel) (store w),
          UpdateInfo \<lparr>p_lastChatLogId = Some (res_logId msgData),
                      p_lastChatLog = Some (structToChatlog imp (res_chatLog msgData)),
                      p_metaMap = None\<rparr>]\<rparr>"
  using assms
  by (simp add: msgHandler_def Let_def updateInfo_def callEvent_proj mergeInfo_def)

text \<open>
  C3.  A message-post push whose conversation id equals the handler's channel id appends
  to the trace one \<^verbatim>\<open>chat\<close> emission per sink, carrying the decoded record, and then
  the \<^verbatim>\<open>updateInfo\<close> call with the pushed log id and the decoded record; the store then
  holds them, whatever \<open>lastChatLogId\<close> it held before (the statement puts no condition
  on the world).  A push with another id leaves the world, trace included, as it was.
\<close>

theorem msg_emits_then_commits:
  "let w' = TalkChannelHandler_pushReceived imp channel ''MSG'' msgData parentCtx w;
       chatLog = structToChatlog imp (res_chatLog msgData);
       ev = Ev_chat (TalkChatData chatLog) channel
   in (channelId channel = res_chatId msgData \<longrightarrow>
         trace w' = trace w @
           [Emit LocalEmitter ev (store w), Emit (ParentCtx parentCtx) ev (store w),
            UpdateInfo \<lparr>p_lastChatLogId = Some (res_logId msgData),
                        p_lastChatLog = Some chatLog, p_metaMap = None\<rparr>]
       \<and> emitted LocalEmitter (trace w') = emitted LocalEmitter (trace w) @ [ev]
       \<and> emitted (ParentCtx parentCtx) (trace w') = emitted (ParentCtx parentCtx) (trace w) @ [ev]
       \<and> lastChatLogId (info (store w')) = res_logId msgData
       \<and> lastChatLog (info (store w')) = Some chatLog)
    \<and> (channelId channel \<noteq> res_chatId msgData \<longrightarrow> w' = w)"
proof (cases "channelId channel = res_chatId msgData")
  case True
  then show ?thesis
    by (simp add: dispatch msgHandler_match Let_def emitted_append)
next
  case False
  then show ?thesis
    by (simp add: dispatch msgHandler_def Let_def)
qed

theorem msg_emits_then_commits_witness:
  "channelId ex_channel = res_chatId (ex_data (ex_struct 1 ''hi'') 5)
   \<and> lastChatLogId (info (store ex_world)) = 100
   \<and> (let w' = TalkChannelHandler_pushReceived ex_imports ex_channel ''MSG''
                 (ex_data (ex_struct 1 ''hi'') 5) 9 ex_world
      in lastChatLogId (info (store w')) = 41
       \<and> emitted LocalEmitter (trace w') =
           [Ev_chat (TalkChatData (structToChatlog ex_imports (ex_struct 1 ''hi''))) ex_channel]
       \<and> length (trace w') = 3)
   \<and> channelId \<lparr>channelId = 8\<rparr> \<noteq> res_chatId (ex_data (ex_struct 1 ''hi'') 5)
   \<and> TalkChannelHandler_pushReceived ex_imports \<lparr>channelId = 8\<rparr> ''MSG''
        (ex_data (ex_struct 1 ''hi'') 5) 9 ex_world = ex_world"
  using msg_emits_then_commits
    [of ex_imports ex_channel "ex_data (ex_struct 1 ''hi'') 5" 9 ex_world]
    msg_emits_then_commits
    [of ex_imports "\<lparr>channelId = 8\<rparr>" "ex_data (ex_struct 1 ''hi'') 5" 9 ex_world]
  by (simp add: ex_channel_def ex_data_def ex_world_def Let_def)

section \<open>Member joined\<close>

lemma updateUserInfo_proj:
  "heap (updateUserInfo u i w) = heap w"
  "pending (updateUserInfo u i w) = pending w"
  "store (updateUserInfo u i w) =
     (store w)\<lparr>userInfoMap := (userInfoMap (store w))(userId u \<mapsto> i)\<rparr>"
  "trace (updateUserInfo u i w) = trace w @ [UpdateUserInfo u i]"
  by (simp_all add: updateUserInfo_def)

lemma userJoinLoop_frame:
  "heap (userJoinLoop imp channel chatLog c users w) = heap w \<and>
   pending (userJoinLoop imp channel chatLog c users w) = pending w \<and>
   info (store (userJoinLoop imp channel chatLog c users w)) = info (store w) \<and>
   watermarkMap (store (userJoinLoop imp channel chatLog c users w)) = watermarkMap (store w)"
  by (induction users arbitrary: w) (simp_all add: Let_def callEvent_proj updateUserInfo_proj)

lemma userJoinLoop_emitted:
  "emitted s (trace (userJoinLoop imp channel chatLog c users w)) =
     emitted s (trace w) @
       (if s = LocalEmitter \<or> s = ParentCtx c
        then map (\<lambda>u. Ev_user_join chatLog channel u (feedFromChat imp chatLog)) users
        else [])"
  by (induction users arbitrary: w)
     (auto simp: Let_def callEvent_proj updateUserInfo_proj emitted_append)

lemma userJoinLoop_trace:
  "\<exists>sts. length sts = length users \<and>
     trace (userJoinLoop imp channel chatLog c users w) =
       trace w @ concat (map
         (\<lambda>(u, s). [UpdateUserInfo \<lparr>userId = info_userId u\<rparr> u,
                    Emit LocalEmitter (Ev_user_join chatLog channel u (feedFromChat imp chatLog)) s,
                    Emit (ParentCtx c) (Ev_user_join chatLog channel u (feedFromChat imp chatLog)) s])
         (zip users sts)) \<and>
     (\<forall>(u, s) \<in> set (zip users sts). userInfoMap s (info_userId u) = Some u)"
proof (induction users arbitrary: w)
  case Nil
  then show ?case by simp
next
  case (Cons user rest)
  let ?w1 = "updateUserInfo \<lparr>userId = info_userId user\<rparr> user w"
  let ?ev = "Ev_user_join chatLog channel user (feedFromChat imp chatLog)"
  let ?w2 = "callEvent c ?ev ?w1"
  from Cons.IH [of ?w2] obtain sts where
    len: "length sts = length rest" and
    tr: "trace (userJoinLoop imp channel chatLog c rest ?w2) =
       trace ?w2 @ concat (map
         (\<lambda>(u, s). [UpdateUserInfo \<lparr>userId = info_userId u\<rparr> u,
                    Emit LocalEmitter (Ev_user_join chatLog channel u (feedFromChat imp chatLog)) s,
                    Emit (ParentCtx c) (Ev_user_join chatLog channel u (feedFromChat imp chatLog)) s])
         (zip rest sts))" and
    obs: "\<forall>(u, s) \<in> set (zip rest sts). userInfoMap s (info_userId u) = Some u"
    by blast
  show ?case
  proof (intro exI [of _ "store ?w1 # sts"] conjI)
    show "length (store ?w1 # sts) = length (user # rest)"
      using len by simp
    show "trace (userJoinLoop imp channel chatLog c (user # rest) w) =
       trace w @ concat (map
         (\<lambda>(u, s). [UpdateUserInfo \<lparr>userId = info_userId u\<rparr> u,
                    Emit LocalEmitter (Ev_user_join chatLog channel u (feedFromChat imp chatLog)) s,
                    Emit (ParentCtx c) (Ev_user_join chatLog channel u (feedFromChat imp chatLog)) s])
         (zip (user # rest) (store ?w1 # sts)))"
      using tr by (simp add: Let_def callEvent_proj updateUserInfo_proj)
    show "\<forall>(u, s) \<in> set (zip (user # rest) (store ?w1 # sts)).
            userInfoMap s (info_userId u) = Some u"
      using obs by (simp add: updateUserInfo_proj)
  qed
qed

lemma settle_Success:
  assumes "i < length (pending w)" and "pending w ! i = (chatLog, c)"
  shows "settle imp channel i (Success st users) w =
     userJoinLoop imp channel chatLog c users
       (w\<lparr>pending := take i (pending w) @ drop (Suc i) (pending w)\<rparr>)"
  using assms by (simp add: settle_def userJoinCallback_def)

lemma settle_Failure:
  assumes "i < length (pending w)" and "pending w ! i = (chatLog, c)"
  shows "settle imp channel i (Failure st) w =
     w\<lparr>pending := take i (pending w) @ drop (Suc i) (pending w)\<rparr>"
  using assms by (simp add: settle_def userJoinCallback_def)

text \<open>
  C4.  A member-joined push with matching conversation id and feed-typed log sends the
  profile request and registers one continuation; nothing is emitted or committed yet.
  When the promise of that continuation settles, in whatever world \<open>w2\<close> the handler
  is by then, with success and \<open>K\<close> user records, \<^verbatim>\<open>user_join\<close> is emitted on each
  sink exactly once per record, in order (\<open>K\<close> times); each record's two emissions
  directly follow the \<^verbatim>\<open>updateUserInfo\<close> call for that record and see it in the
  user cache.  When it settles with failure, the trace and the store stay as they were.
\<close>

theorem userJoin_once_per_resolved_user:
  assumes "channelId channel = struct_chatId (res_chatLog data)"
    and "log_type (structToChatlog imp (res_chatLog data)) = KnownChatType_FEED imp"
    and "i < length (pending w2)"
    and "pending w2 ! i = (structToChatlog imp (res_chatLog data), parentCtx)"
  shows "let chatLog = structToChatlog imp (res_chatLog data);
             ev = (\<lambda>u. Ev_user_join chatLog channel u (feedFromChat imp chatLog));
             w1 = TalkChannelHandler_pushReceived imp channel ''NEWMEM'' data parentCtx w;
             ok = settle imp channel i (Success st users) w2;
             ko = settle imp channel i (Failure st) w2
         in pending w1 = pending w @ [(chatLog, parentCtx)]
          \<and> trace w1 = trace w @ [GetLatestUserInfo (log_sender chatLog)]
          \<and> store w1 = store w
          \<and> emitted LocalEmitter (trace ok) = emitted LocalEmitter (trace w2) @ map ev users
          \<and> emitted (ParentCtx parentCtx) (trace ok) =
              emitted (ParentCtx parentCtx) (trace w2) @ map ev users
          \<and> (\<exists>sts. length sts = length users \<and>
                trace ok = trace w2 @ concat (map
                  (\<lambda>(u, s). [UpdateUserInfo \<lparr>userId = info_userId u\<rparr> u,
                             Emit LocalEmitter (ev u) s, Emit (ParentCtx parentCtx) (ev u) s])
                  (zip users sts)) \<and>
                (\<forall>(u, s) \<in> set (zip users sts). userInfoMap s (info_userId u) = Some u))
          \<and> trace ko = trace w2 \<and> store ko = store w2"
proof -
  let ?chatLog = "structToChatlog imp (res_chatLog data)"
  let ?w2 = "w2\<lparr>pending := take i (pending w2) @ drop (Suc i) (pending w2)\<rparr>"
  have reg: "TalkChannelHandler_pushReceived imp channel ''NEWMEM'' data parentCtx w =
      w\<lparr>pending := pending w @ [(?chatLog, parentCtx)],
        trace := trace w @ [GetLatestUserInfo (log_sender ?chatLog)]\<rparr>"
    using assms(1,2)
    by (simp add: dispatch userJoinHandler_def Let_def getLatestUserInfo_then_def)
  have ok: "settle imp channel i (Success st users) w2 =
      userJoinLoop imp channel ?chatLog parentCtx users ?w2"
    using assms(3,4) by (rule settle_Success)
  have ko: "settle imp channel i (Failure st) w2 = ?w2"
    using assms(3,4) by (rule settle_Failure)
  from userJoinLoop_trace [of users imp channel ?chatLog parentCtx ?w2]
  have tr: "\<exists>sts. length sts = length users \<and>
     trace (userJoinLoop imp channel ?chatLog parentCtx users ?w2) =
       trace w2 @ concat (map
         (\<lambda>(u, s). [UpdateUserInfo \<lparr>userId = info_userId u\<rparr> u,
                    Emit LocalEmitter (Ev_user_join ?chatLog channel u (feedFromChat imp ?chatLog)) s,
                    Emit (ParentCtx parentCtx)
                      (Ev_user_join ?chatLog channel u (feedFromChat imp ?chatLog)) s])
         (zip users sts)) \<and>
     (\<forall>(u, s) \<in> set (zip users sts). userInfoMap s (info_userId u) = Some u)"
    by simp
  show ?thesis
    unfolding Let_def reg ok ko
    using tr by (simp add: userJoinLoop_emitted)
qed

theorem userJoin_once_per_resolved_user_witness:
  "channelId ex_channel = struct_chatId (res_chatLog (ex_data (ex_struct 0 ''join'') 5))
   \<and> log_type (structToChatlog ex_imports (res_chatLog (ex_data (ex_struct 0 ''join'') 5)))
       = KnownChatType_FEED ex_imports
   \<and> (let w1 = TalkChannelHandler_pushReceived ex_imports ex_channel ''NEWMEM''
                 (ex_data (ex_struct 0 ''join'') 5) 9 ex_world;
          chatLog = structToChatlog ex_imports (ex_struct 0 ''join'');
          feed = feedFromChat ex_imports chatLog
      in 0 < length (pending w1) \<and> pending w1 ! 0 = (chatLog, 9)
       \<and> emitted LocalEmitter (trace w1) = []
       \<and> emitted LocalEmitter (trace (settle ex_imports ex_channel 0
             (Success 0 [ex_user, ex_user2]) w1)) =
           [Ev_user_join chatLog ex_channel ex_user feed,
            Ev_user_join chatLog ex_channel ex_user2 feed]
       \<and> trace (settle ex_imports ex_channel 0 (Failure 0) w1) = trace w1
       \<and> store (settle ex_imports ex_channel 0 (Failure 0) w1) = store ex_world)"
  using userJoin_once_per_resolved_user
    [of ex_channel "ex_data (ex_struct 0 ''join'') 5" ex_imports 0
        "TalkChannelHandler_pushReceived ex_imports ex_channel ''NEWMEM''
           (ex_data (ex_struct 0 ''join'') 5) 9 ex_world" 9 ex_world 0 "[ex_user, ex_user2]"]
  by (simp add: ex_channel_def ex_data_def ex_world_def ex_imports_def ex_struct_def
      Let_def dispatch userJoinHandler_def getLatestUserInfo_then_def)

section \<open>Read receipt\<close>

text \<open>
  C5.  A read-receipt push whose conversation id matches appends to the trace the
  \<^verbatim>\<open>updateWatermark\<close> call for the pushed user id and then one \<^verbatim>\<open>chat_read\<close>
  emission per sink; the emissions run on the store that already holds the new
  watermark.  Nothing is assumed about the user id: when it resolves to no user record
  the commit and both emissions still happen, the user argument of the event is absent,
  and the handler returns normally (it has no failing branch).
\<close>

theorem chatRead_commits_then_emits:
  assumes "channelId channel = res_chatId readData"
  shows "let uid = res_userId readData;
             wm = res_watermark readData;
             w' = TalkChannelHandler_pushReceived imp channel ''DECUNREAD'' readData parentCtx w;
             st' = (store w)\<lparr>watermarkMap := (watermarkMap (store w))(uid \<mapsto> wm)\<rparr>;
             ev = Ev_chat_read wm channel (userInfoMap (store w) uid)
         in trace w' = trace w @
              [UpdateWatermark uid wm, Emit LocalEmitter ev st', Emit (ParentCtx parentCtx) ev st']
          \<and> store w' = st'
          \<and> watermarkMap (store w') uid = Some wm
          \<and> (userInfoMap (store w) uid = None \<longrightarrow>
               emitted LocalEmitter (trace w') =
                 emitted LocalEmitter (trace w) @ [Ev_chat_read wm channel None]
             \<and> emitted (ParentCtx parentCtx) (trace w') =
                 emitted (ParentCtx parentCtx) (trace w) @ [Ev_chat_read wm channel None])"
  using assms
  by (simp add: dispatch chatReadHandler_def Let_def updateWatermark_def callEvent_def emit_def
      getUserInfo_def emitted_append)

theorem chatRead_commits_then_emits_witness:
  "channelId ex_channel = res_chatId (ex_data (ex_struct 1 ''hi'') 6)
   \<and> userInfoMap (store ex_world) 6 = None
   \<and> (let w' = TalkChannelHandler_pushReceived ex_imports ex_channel ''DECUNREAD''
                 (ex_data (ex_struct 1 ''hi'') 6) 9 ex_world
      in watermarkMap (store w') 6 = Some 40
       \<and> emitted LocalEmitter (trace w') = [Ev_chat_read 40 ex_channel None]
       \<and> hd (trace w') = UpdateWatermark 6 40)"
  using chatRead_commits_then_emits
    [of ex_channel "ex_data (ex_struct 1 ''hi'') 6" ex_imports 9 ex_world]
  by (simp add: ex_channel_def ex_data_def ex_world_def Let_def)

section \<open>Message delete sync\<close>

text \<open>
  C6.  A message-delete-sync push whose embedded log's conversation id matches emits
  \<^verbatim>\<open>chat_deleted\<close> once on each sink when the decoded log is feed-typed and its
  decoded feed has the delete-to-all type, and emits nothing otherwise.  In both cases
  the store, the heap and the waiting continuations are as before the push.
\<close>

theorem msgDelete_only_delete_to_all:
  assumes "channelId channel = struct_chatId (res_chatLog data)"
  shows "let chatLog = structToChatlog imp (res_chatLog data);
             feed = feedFromChat imp chatLog;
             ev = Ev_chat_deleted chatLog channel feed;
             hit = (log_type chatLog = KnownChatType_FEED imp
                    \<and> feedType feed = KnownFeedType_DELETE_TO_ALL imp);
             w' = TalkChannelHandler_pushReceived imp channel ''SYNCDLMSG'' data parentCtx w
         in trace w' = trace w @
              (if hit then [Emit LocalEmitter ev (store w), Emit (ParentCtx parentCtx) ev (store w)]
               else [])
          \<and> emitted LocalEmitter (trace w') =
              emitted LocalEmitter (trace w) @ (if hit then [ev] else [])
          \<and> emitted (ParentCtx parentCtx) (trace w') =
              emitted (ParentCtx parentCtx) (trace w) @ (if hit then [ev] else [])
          \<and> store w' = store w \<and> heap w' = heap w \<and> pending w' = pending w"
  using assms
  by (simp add: dispatch msgDeleteHandler_def Let_def callEvent_proj emitted_append)

theorem msgDelete_only_delete_to_all_witness:
  "channelId ex_channel = struct_chatId (res_chatLog (ex_data (ex_struct 0 ''del'') 5))
   \<and> emitted LocalEmitter (trace (TalkChannelHandler_pushReceived ex_imports ex_channel
        ''SYNCDLMSG'' (ex_data (ex_struct 0 ''del'') 5) 9 ex_world)) =
       [Ev_chat_deleted (structToChatlog ex_imports (ex_struct 0 ''del'')) ex_channel
          \<lparr>feedType = 14, feed_content = ''del''\<rparr>]
   \<and> trace (TalkChannelHandler_pushReceived ex_imports ex_channel
        ''SYNCDLMSG'' (ex_data (ex_struct 0 ''leave'') 5) 9 ex_world) = []
   \<and> trace (TalkChannelHandler_pushReceived ex_imports ex_channel
        ''SYNCDLMSG'' (ex_data (ex_struct 1 ''del'') 5) 9 ex_world) = []"
  using msgDelete_only_delete_to_all
    [of ex_channel "ex_data (ex_struct 0 ''del'') 5" ex_imports 9 ex_world]
    msgDelete_only_delete_to_all
    [of ex_channel "ex_data (ex_struct 0 ''leave'') 5" ex_imports 9 ex_world]
    msgDelete_only_delete_to_all
    [of ex_channel "ex_data (ex_struct 1 ''del'') 5" ex_imports 9 ex_world]
  by (simp add: ex_channel_def ex_data_def ex_world_def ex_imports_def ex_struct_def Let_def)

section \<open>Member left\<close>

text \<open>
  C7.  A member-left push whose embedded log's conversation id matches, and whose sender
  resolves to no user record, leaves the world as it was: no removal, no other commit,
  no emission.  When the sender resolves, the \<^verbatim>\<open>removeUser\<close> call comes first in the
  trace; the \<^verbatim>\<open>user_left\<close> emissions, made when the log is feed-typed, follow it and
  run on the store from which the user is already removed.
\<close>

theorem userLeft_unresolved_sender_dropped:
  assumes "channelId channel = struct_chatId (res_chatLog data)"
  shows "let chatLog = structToChatlog imp (res_chatLog data);
             sender = log_sender chatLog;
             w' = TalkChannelHandler_pushReceived imp channel ''DELMEM'' data parentCtx w;
             st' = (store w)\<lparr>userInfoMap := (userInfoMap (store w))(userId sender := None)\<rparr>
         in (getUserInfo w sender = None \<longrightarrow> w' = w)
          \<and> (\<forall>user. getUserInfo w sender = Some user \<longrightarrow>
                store w' = st'
              \<and> trace w' = trace w @ RemoveUser sender #
                  (if log_type chatLog = KnownChatType_FEED imp
                   then [Emit LocalEmitter
                           (Ev_user_left chatLog channel user (feedFromChat imp chatLog)) st',
                         Emit (ParentCtx parentCtx)
                           (Ev_user_left chatLog channel user (feedFromChat imp chatLog)) st']
                   else []))"
  using assms
  by (simp add: dispatch userLeftHandler_def Let_def removeUser_def callEvent_def emit_def)

theorem userLeft_unresolved_sender_dropped_witness:
  "channelId ex_channel = struct_chatId (res_chatLog (ex_data (ex_struct 0 ''leave'') 5))
   \<and> getUserInfo (ex_world\<lparr>store := (store ex_world)\<lparr>userInfoMap := Map.empty\<rparr>\<rparr>)
        (log_sender (structToChatlog ex_imports (ex_struct 0 ''leave''))) = None
   \<and> TalkChannelHandler_pushReceived ex_imports ex_channel ''DELMEM''
        (ex_data (ex_struct 0 ''leave'') 5) 9
        (ex_world\<lparr>store := (store ex_world)\<lparr>userInfoMap := Map.empty\<rparr>\<rparr>)
       = ex_world\<lparr>store := (store ex_world)\<lparr>userInfoMap := Map.empty\<rparr>\<rparr>
   \<and> getUserInfo ex_world (log_sender (structToChatlog ex_imports (ex_struct 0 ''leave'')))
       = Some ex_user
   \<and> (let w' = TalkChannelHandler_pushReceived ex_imports ex_channel ''DELMEM''
                 (ex_data (ex_struct 0 ''leave'') 5) 9 ex_world
      in hd (trace w') = RemoveUser \<lparr>userId = 5\<rparr> \<and> length (trace w') = 3
       \<and> userInfoMap (store w') 5 = None)"
  using userLeft_unresolved_sender_dropped
    [of ex_channel "ex_data (ex_struct 0 ''leave'') 5" ex_imports 9
        "ex_world\<lparr>store := (store ex_world)\<lparr>userInfoMap := Map.empty\<rparr>\<rparr>"]
    userLeft_unresolved_sender_dropped
    [of ex_channel "ex_data (ex_struct 0 ''leave'') 5" ex_imports 9 ex_world]
  by (simp add: ex_channel_def ex_data_def ex_world_def ex_imports_def ex_struct_def Let_def
      getUserInfo_def)

section \<open>Membership left\<close>

lemma list_emitted_append: "list_emitted s (xs @ ys) = list_emitted s xs @ list_emitted s ys"
  by (induction s xs rule: list_emitted.induct) simp_all

text \<open>The world the \<^verbatim>\<open>LEFT\<close> case leaves when the list store has the pushed id.\<close>

lemma left_present:
  assumes "channelMap w (res_chatId data) = Some channel"
  shows "TalkChannelListHandler_pushReceived removeChannel ''LEFT'' data parentCtx w =
     w\<lparr>channelMap := snd (removeChannel channel (channelMap w)),
       list_trace := list_trace w @
         [RemoveChannel channel (fst (removeChannel channel (channelMap w))),
          ListEmit LocalEmitter (Ev_channel_left channel)
            (snd (removeChannel channel (channelMap w))),
          ListEmit (ParentCtx parentCtx) (Ev_channel_left channel)
            (snd (removeChannel channel (channelMap w)))]\<rparr>"
  using assms
  by (simp add: TalkChannelListHandler_pushReceived_def Let_def call_removeChannel_def
      list_callEvent_def list_emit_def split: prod.splits)

text \<open>
  C8.  A membership-left push whose id the list store does not hold leaves the world as
  it was: \<^verbatim>\<open>removeChannel\<close> is not called and nothing is emitted.  When the store holds
  the id, the handler appends to the trace the \<^verbatim>\<open>removeChannel\<close> call for the stored
  conversation and then one \<^verbatim>\<open>channel_left\<close> emission per sink, carrying that
  conversation and running on the list store as the updater left it.
\<close>

theorem left_removes_then_emits:
  "let w' = TalkChannelListHandler_pushReceived removeChannel ''LEFT'' data parentCtx w
   in (channelMap w (res_chatId data) = None \<longrightarrow> w' = w)
    \<and> (\<forall>channel. channelMap w (res_chatId data) = Some channel \<longrightarrow>
          (\<exists>res m. removeChannel channel (channelMap w) = (res, m)
             \<and> list_trace w' = list_trace w @
                 [RemoveChannel channel res,
                  ListEmit LocalEmitter (Ev_channel_left channel) m,
                  ListEmit (ParentCtx parentCtx) (Ev_channel_left channel) m])
        \<and> list_emitted LocalEmitter (list_trace w') =
            list_emitted LocalEmitter (list_trace w) @ [Ev_channel_left channel]
        \<and> list_emitted (ParentCtx parentCtx) (list_trace w') =
            list_emitted (ParentCtx parentCtx) (list_trace w) @ [Ev_channel_left channel])"
proof (cases "channelMap w (res_chatId data)")
  case None
  then show ?thesis
    by (simp add: TalkChannelListHandler_pushReceived_def Let_def)
next
  case (Some channel)
  then show ?thesis
    by (simp add: left_present Let_def list_emitted_append)
qed

theorem left_removes_then_emits_witness:
  "channelMap (ex_list_world\<lparr>channelMap := Map.empty\<rparr>)
     (res_chatId (ex_data (ex_struct 1 ''hi'') 5)) = None
   \<and> TalkChannelListHandler_pushReceived ex_removeChannel ''LEFT''
        (ex_data (ex_struct 1 ''hi'') 5) 9 (ex_list_world\<lparr>channelMap := Map.empty\<rparr>)
       = ex_list_world\<lparr>channelMap := Map.empty\<rparr>
   \<and> channelMap ex_list_world (res_chatId (ex_data (ex_struct 1 ''hi'') 5)) = Some ex_channel
   \<and> (let w' = TalkChannelListHandler_pushReceived ex_removeChannel ''LEFT''
                 (ex_data (ex_struct 1 ''hi'') 5) 9 ex_list_world
      in list_trace w' =
           [RemoveChannel ex_channel True,
            ListEmit LocalEmitter (Ev_channel_left ex_channel) Map.empty,
            ListEmit (ParentCtx 9) (Ev_channel_left ex_channel) Map.empty]
       \<and> list_emitted LocalEmitter (list_trace w') = [Ev_channel_left ex_channel])"
  using left_removes_then_emits
    [of ex_removeChannel "ex_data (ex_struct 1 ''hi'') 5" 9
        "ex_list_world\<lparr>channelMap := Map.empty\<rparr>"]
    left_removes_then_emits
    [of ex_removeChannel "ex_data (ex_struct 1 ''hi'') 5" 9 ex_list_world]
  by (simp add: ex_channel_def ex_data_def ex_list_world_def ex_removeChannel_def Let_def)

text \<open>
  C10.  For a membership-left push whose id the list store holds, and for every
  implementation of \<^verbatim>\<open>removeChannel\<close>, the \<^verbatim>\<open>channel_left\<close> event is emitted once on
  each sink.  The boolean the updater returned appears in the trace entry of the call
  and nowhere else: in particular the emission happens when it is \<open>False\<close>.
\<close>

theorem left_emits_whatever_removeChannel_returns:
  assumes "channelMap w (res_chatId data) = Some channel"
  shows "let w' = TalkChannelListHandler_pushReceived removeChannel ''LEFT'' data parentCtx w;
             res = fst (removeChannel channel (channelMap w))
         in RemoveChannel channel res \<in> set (list_trace w')
          \<and> list_emitted LocalEmitter (list_trace w') =
              list_emitted LocalEmitter (list_trace w) @ [Ev_channel_left channel]
          \<and> list_emitted (ParentCtx parentCtx) (list_trace w') =
              list_emitted (ParentCtx parentCtx) (list_trace w) @ [Ev_channel_left channel]
          \<and> (\<not> res \<longrightarrow>
               list_emitted LocalEmitter (list_trace w') =
                 list_emitted LocalEmitter (list_trace w) @ [Ev_channel_left channel])"
  using assms by (simp add: left_present Let_def list_emitted_append)

theorem left_emits_whatever_removeChannel_returns_witness:
  "channelMap ex_list_world (res_chatId (ex_data (ex_struct 1 ''hi'') 5)) = Some ex_channel
   \<and> \<not> fst (ex_removeChannel_refusing ex_channel (channelMap ex_list_world))
   \<and> list_trace (TalkChannelListHandler_pushReceived ex_removeChannel_refusing ''LEFT''
        (ex_data (ex_struct 1 ''hi'') 5) 9 ex_list_world) =
       [RemoveChannel ex_channel False,
        ListEmit LocalEmitter (Ev_channel_left ex_channel) (channelMap ex_list_world),
        ListEmit (ParentCtx 9) (Ev_channel_left ex_channel) (channelMap ex_list_world)]
   \<and> list_emitted LocalEmitter (list_trace (TalkChannelListHandler_pushReceived
        ex_removeChannel_refusing ''LEFT'' (ex_data (ex_struct 1 ''hi'') 5) 9 ex_list_world)) =
       [Ev_channel_left ex_channel]"
  using left_emits_whatever_removeChannel_returns
    [of ex_list_world "ex_data (ex_struct 1 ''hi'') 5" ex_channel ex_removeChannel_refusing 9]
  by (simp add: ex_channel_def ex_data_def ex_list_world_def ex_removeChannel_refusing_def
      Let_def left_present)

section \<open>Registry fan-out\<close>

text \<open>
  C9.  For every tag, payload and parent context, and whatever the sub-registries do with
  a push, \<^verbatim>\<open>TalkChannelList.pushReceived\<close> constructs one \<^verbatim>\<open>EventContext\<close>, wrapping
  the list itself under the given parent, and makes two calls: \<^verbatim>\<open>pushReceived\<close> of the
  normal list and then of the open list, each with the same tag, the same payload and
  the reference of that one new context.
\<close>

theorem registry_forwards_through_one_child_context:
  "let l' = TalkChannelList_pushReceived npush opush this method data parentCtx l;
       ctx = length (contexts l)
   in contexts l' = contexts l @ [\<lparr>ctx_emitter = this, ctx_parent = parentCtx\<rparr>]
    \<and> forwards l' = forwards l @
        [Forward NormalList method data ctx, Forward OpenList method data ctx]
    \<and> normalList l' = npush method data ctx (normalList l)
    \<and> openList l' = opush method data ctx (openList l)"
  by (simp add: TalkChannelList_pushReceived_def new_EventContext_def
      normalList_pushReceived_def openList_pushReceived_def Let_def)

theorem registry_forwards_through_one_child_context_witness:
  "(let l' = TalkChannelList_pushReceived (\<lambda>m d c n. (m, c) # n) (\<lambda>m d c n. Suc n) 1 ''MSG''
               (ex_data (ex_struct 1 ''hi'') 5) 0
               \<lparr>normalList = [], openList = 0::nat,
                contexts = [\<lparr>ctx_emitter = 0, ctx_parent = 0\<rparr>], forwards = []\<rparr>
    in contexts l' = [\<lparr>ctx_emitter = 0, ctx_parent = 0\<rparr>, \<lparr>ctx_emitter = 1, ctx_parent = 0\<rparr>]
     \<and> forwards l' = [Forward NormalList ''MSG'' (ex_data (ex_struct 1 ''hi'') 5) 1,
                      Forward OpenList ''MSG'' (ex_data (ex_struct 1 ''hi'') 5) 1]
     \<and> normalList l' = [(''MSG'', 1)] \<and> openList l' = 1)"
  using registry_forwards_through_one_child_context
    [of "\<lambda>m d c n. (m, c) # n" "\<lambda>m d c n. Suc n" 1 "''MSG''"
        "ex_data (ex_struct 1 ''hi'') 5" 0
        "\<lparr>normalList = [], openList = 0::nat,
          contexts = [\<lparr>ctx_emitter = 0, ctx_parent = 0\<rparr>], forwards = []\<rparr>"]
  by (simp add: Let_def)

end
